theory Spec2Isabelle
  imports Complex_Main "HOL-Library.Word"
begin

section \<open>Single-precision values\<close>

text \<open>
  The demodulator computes in C++ \<^verbatim>\<open>float\<close>.  A value is a finite number, one of the two
  infinities, or a NaN.  Finite values are carried as reals: rounding to 24 bits of
  mantissa, overflow of a finite result to an infinity and the sign of zero are not
  modelled.  What is modelled exactly is the part the control flow of the demodulator
  depends on: the IEEE comparison (every comparison with a NaN is false) and the way
  NaN and the infinities travel through the arithmetic.
\<close>

datatype float = Fin real | PInf | NInf | NaN

fun flt :: "float \<Rightarrow> float \<Rightarrow> bool" where
  "flt NaN y = False"
| "flt x NaN = False"
| "flt (Fin a) (Fin b) = (a < b)"
| "flt (Fin a) PInf = True"
| "flt (Fin a) NInf = False"
| "flt PInf y = False"
| "flt NInf NInf = False"
| "flt NInf y = True"

fun fneg :: "float \<Rightarrow> float" where
  "fneg (Fin a) = Fin (- a)"
| "fneg PInf = NInf"
| "fneg NInf = PInf"
| "fneg NaN = NaN"

fun fadd :: "float \<Rightarrow> float \<Rightarrow> float" where
  "fadd NaN y = NaN"
| "fadd x NaN = NaN"
| "fadd (Fin a) (Fin b) = Fin (a + b)"
| "fadd PInf NInf = NaN"
| "fadd NInf PInf = NaN"
| "fadd PInf y = PInf"
| "fadd NInf y = NInf"
| "fadd (Fin a) y = y"

definition fsub :: "float \<Rightarrow> float \<Rightarrow> float" where
  "fsub x y = fadd x (fneg y)"

text \<open>The sign of an infinite product; a zero factor next to an infinity gives NaN.\<close>

definition signed_inf :: "bool \<Rightarrow> float" where
  "signed_inf positive = (if positive then PInf else NInf)"

fun fmul :: "float \<Rightarrow> float \<Rightarrow> float" where
  "fmul NaN y = NaN"
| "fmul x NaN = NaN"
| "fmul (Fin a) (Fin b) = Fin (a * b)"
| "fmul (Fin a) PInf = (if a = 0 then NaN else signed_inf (0 < a))"
| "fmul (Fin a) NInf = (if a = 0 then NaN else signed_inf (a < 0))"
| "fmul PInf (Fin b) = (if b = 0 then NaN else signed_inf (0 < b))"
| "fmul NInf (Fin b) = (if b = 0 then NaN else signed_inf (b < 0))"
| "fmul PInf PInf = PInf"
| "fmul PInf NInf = NInf"
| "fmul NInf PInf = NInf"
| "fmul NInf NInf = PInf"

text \<open>
  Division.  The only divisor the demodulator uses is the constant 32768; the zero
  divisor is the positive zero here.
\<close>

fun fdiv :: "float \<Rightarrow> float \<Rightarrow> float" where
  "fdiv NaN y = NaN"
| "fdiv x NaN = NaN"
| "fdiv (Fin a) (Fin b) =
     (if b = 0 then (if a = 0 then NaN else signed_inf (0 < a)) else Fin (a / b))"
| "fdiv (Fin a) y = Fin 0"
| "fdiv x (Fin b) = (if x = PInf then signed_inf (0 \<le> b) else signed_inf (b < 0))"
| "fdiv x y = NaN"

text \<open>
  \<^verbatim>\<open>std::max(a, b)\<close> is \<^verbatim>\<open>(a < b) ? b : a\<close> and \<^verbatim>\<open>std::min(a, b)\<close> is
  \<^verbatim>\<open>(b < a) ? b : a\<close>: with a NaN in either place the first argument comes back.
\<close>

definition std_max :: "float \<Rightarrow> float \<Rightarrow> float" where
  "std_max a b = (if flt a b then b else a)"

definition std_min :: "float \<Rightarrow> float \<Rightarrow> float" where
  "std_min a b = (if flt b a then b else a)"

text \<open>A \<^verbatim>\<open>q15_t\<close> is a signed 16-bit integer; its conversion to float is exact.\<close>

type_synonym q15_t = "16 word"
type_synonym int8_t = "8 word"

definition float_of_q15 :: "q15_t \<Rightarrow> float" where
  "float_of_q15 x = Fin (real_of_int (sint x))"

section \<open>The frame pool (HdlcFrame.cpp)\<close>

text \<open>
  An \<^verbatim>\<open>IoFrame*\<close> is either the null pointer or the address of a frame of the pool.
\<close>

type_synonym IoFrame_ptr = "nat option"

text \<open>
  Modelled from the spec: the class \<^verbatim>\<open>IoFramePool\<close> (HdlcFrame.hpp is not among the
  sources).  The pool is a fixed-capacity arena with a free list; its \<^verbatim>\<open>acquire\<close> takes a
  frame from the free list, or reports exhaustion by the null pointer when there is no
  free frame, and its \<^verbatim>\<open>release\<close> returns the frame to the free list.
\<close>

record IoFramePool =
  free_list :: "nat list"

definition pool_acquire :: "IoFramePool \<Rightarrow> IoFrame_ptr \<times> IoFramePool" where
  "pool_acquire p =
     (case free_list p of
        [] \<Rightarrow> (None, p)
      | f # fs \<Rightarrow> (Some f, p\<lparr>free_list := fs\<rparr>))"

definition pool_release :: "nat \<Rightarrow> IoFramePool \<Rightarrow> IoFramePool" where
  "pool_release f p = p\<lparr>free_list := free_list p @ [f]\<rparr>"

text \<open>
  Modelled from the spec: the macro \<^verbatim>\<open>CxxErrorHandler()\<close> (Log.h and the firmware's error
  handler are not among the sources).  It is the process-wide handler of fatal, unrecoverable
  conditions: control does not come back from it, so a call of it ends the computation
  with the error value.
\<close>

datatype error = ErrorHandlerInvoked

definition CxxErrorHandler :: "error + 'a" where
  "CxxErrorHandler = Inl ErrorHandlerInvoked"

text \<open>\<^verbatim>\<open>void release(IoFrame* frame)\<close>: the caller passes a frame, never the null pointer.\<close>

definition release :: "nat \<Rightarrow> IoFramePool \<Rightarrow> IoFramePool" where
  "release frame p = pool_release frame p"

text \<open>\<^verbatim>\<open>IoFrame* acquire()\<close>\<close>

definition acquire :: "IoFramePool \<Rightarrow> error + (IoFrame_ptr \<times> IoFramePool)" where
  "acquire p =
     (let (result, p') = pool_acquire p
      in if result = None then CxxErrorHandler else Inr (result, p'))"

section \<open>The M17 demodulator\<close>

datatype DemodState = UNLOCKED | SYNC | FR_SYNC | FRAMING

text \<open>\<^verbatim>\<open>demod_result_t\<close>: the sample, the phase estimate, the symbol and its EVM.\<close>

type_synonym demod_result_t = "float \<times> float \<times> int \<times> float"

text \<open>
  The data members of \<^verbatim>\<open>struct M17Demodulator\<close>.  The two flags are \<^verbatim>\<open>locked_\<close> and
  \<^verbatim>\<open>passall_\<close> in the source.  The member objects (filters, estimators, correlators,
  framer and decoder) are the collaborators below.  \<^verbatim>\<open>sync_count\<close> is a C++ \<^verbatim>\<open>int\<close>; it is
  reset to 0 on entry to \<open>FR_SYNC\<close> and leaves that state at 9, so it is carried as an
  unbounded integer.
\<close>

record M17Demodulator =
  gain :: float
  samples :: "q15_t \<times> q15_t \<times> q15_t"
  f_samples :: "float \<times> float \<times> float"
  buffer :: "int8_t list"
  t :: float
  dt :: float
  sample_now :: bool
  estimated_deviation :: float
  estimated_frequency_offset :: float
  evm_average :: float
  decoding :: bool
  demodState :: DemodState
  locked_flag :: bool
  passall_flag :: bool
  ber :: int
  sync_count :: int

definition ideal_dt :: float where
  "ideal_dt = Fin (1 / 10)"

text \<open>
  The default member initialisers; the three arrays have none, so their first contents
  are whatever the caller gives.
\<close>

definition M17Demodulator_init ::
  "q15_t \<times> q15_t \<times> q15_t \<Rightarrow> float \<times> float \<times> float \<Rightarrow> int8_t list \<Rightarrow> M17Demodulator" where
  "M17Demodulator_init smp fsmp buf =
     \<lparr> gain = Fin (5 / 1000), samples = smp, f_samples = fsmp, buffer = buf,
       t = Fin 0, dt = Fin (1 / 10), sample_now = False,
       estimated_deviation = Fin 1, estimated_frequency_offset = Fin 0,
       evm_average = Fin 0, decoding = False, demodState = UNLOCKED,
       locked_flag = False, passall_flag = False, ber = - 1, sync_count = 0 \<rparr>"

text \<open>
  The collaborators are opaque units with a state of their own (PhaseEstimator.h,
  DeviationError.h, FrequencyError.h, SymbolEvm.h, CarrierDetect.h, M17Synchronizer.h,
  M17Framer.h, M17FrameDecoder.h and Util.h are not among the sources).  A value of this
  record is what the units answer during one symbol period: each member object as the
  function from its argument to its result in its current state.  \<open>symbol_evm_evm\<close> is
  what \<^verbatim>\<open>symbol_evm.evm()\<close> gives after the call of \<^verbatim>\<open>symbol_evm\<close>.  The decoder gets the
  frame buffer, the \<^verbatim>\<open>result\<close> and \<^verbatim>\<open>ber\<close> references and the frame pool (it acquires its
  output frame there), and gives validity, the new \<^verbatim>\<open>result\<close> and \<^verbatim>\<open>ber\<close> and the pool.
\<close>

record ('n, 'd) units =
  deviation :: "float \<Rightarrow> float"
  frequency :: "float \<Rightarrow> float"
  phase :: "float \<times> float \<times> float \<Rightarrow> float"
  symbol_evm :: "float \<Rightarrow> int \<times> float"
  symbol_evm_evm :: float
  dcd :: "float \<Rightarrow> bool \<times> float"
  from_4fsk :: "int \<Rightarrow> 'd"
  sync1 :: "'d \<Rightarrow> bool"
  sync4 :: "'d \<Rightarrow> bool"
  llr :: "float \<Rightarrow> 'n"
  framer :: "'n \<Rightarrow> nat \<times> int8_t list"
  decoder ::
    "int8_t list \<Rightarrow> IoFrame_ptr \<Rightarrow> int \<Rightarrow> IoFramePool \<Rightarrow> bool \<times> IoFrame_ptr \<times> int \<times> IoFramePool"

text \<open>
  What the demodulator touches outside its own members: the global frame pool, the calls
  it makes on objects whose state is not modelled (the modulator's loopback, the ADC, the
  resets of framer and decoder), and the function-local \<^verbatim>\<open>static size_t count\<close> of
  \<^verbatim>\<open>frame\<close>, which only paces the log output.  Log lines (\<^verbatim>\<open>INFO\<close>, \<^verbatim>\<open>WARN\<close>) are left out.
\<close>

datatype call = StopLoopback | StopADC | FramerReset | DecoderReset

record world =
  pool :: IoFramePool
  calls :: "call list"
  count :: "32 word"

subsection \<open>The control surface\<close>

definition stop :: "M17Demodulator \<times> world \<Rightarrow> M17Demodulator \<times> world" where
  "stop sw =
     (let (s, w) = sw;
          w = w\<lparr>calls := calls w @ [StopLoopback]\<rparr>;
          w = w\<lparr>calls := calls w @ [StopADC]\<rparr>;
          s = s\<lparr>locked_flag := False\<rparr>
      in (s, w))"

definition locked :: "M17Demodulator \<Rightarrow> bool" where
  "locked s = locked_flag s"

definition ADC_BLOCK_SIZE :: nat where
  "ADC_BLOCK_SIZE = 192"

definition size_blk :: "M17Demodulator \<Rightarrow> nat" where
  "size_blk s = ADC_BLOCK_SIZE"

definition passall :: "bool \<Rightarrow> M17Demodulator \<Rightarrow> M17Demodulator" where
  "passall enabled s = s\<lparr>passall_flag := enabled\<rparr>"

subsection \<open>The synchronisation state machine: \<^verbatim>\<open>frame\<close>\<close>

text \<open>
  One function for each \<^verbatim>\<open>case\<close> of the \<^verbatim>\<open>switch\<close>; \<open>UNLOCKED\<close> falls through into
  \<open>SYNC\<close> when the carrier is locked.  The arguments are the locals the case reads.
\<close>

definition case_SYNC ::
  "('n, 'd) units \<Rightarrow> bool \<Rightarrow> int \<Rightarrow> M17Demodulator \<Rightarrow> M17Demodulator" where
  "case_SYNC u locked_now symbol s =
     (if \<not> locked_now then s\<lparr>demodState := UNLOCKED\<rparr>
      else if sync1 u (from_4fsk u symbol) then s\<lparr>demodState := FRAMING\<rparr>
      else s)"

definition case_UNLOCKED ::
  "('n, 'd) units \<Rightarrow> bool \<Rightarrow> int \<Rightarrow> M17Demodulator \<times> world \<Rightarrow> M17Demodulator \<times> world" where
  "case_UNLOCKED u locked_now symbol sw =
     (let (s, w) = sw in
      if \<not> locked_now then (s\<lparr>locked_flag := False\<rparr>, w)
      else
        let s = s\<lparr>demodState := SYNC\<rparr>;
            w = w\<lparr>calls := calls w @ [FramerReset]\<rparr>;
            w = w\<lparr>calls := calls w @ [DecoderReset]\<rparr>
        in (case_SYNC u locked_now symbol s, w))"

definition case_FR_SYNC ::
  "('n, 'd) units \<Rightarrow> bool \<Rightarrow> int \<Rightarrow> M17Demodulator \<Rightarrow> M17Demodulator" where
  "case_FR_SYNC u locked_now symbol s =
     (if \<not> locked_now then s\<lparr>demodState := UNLOCKED\<rparr>
      else if sync4 u (from_4fsk u symbol) then s\<lparr>demodState := FRAMING\<rparr>
      else
        let s = s\<lparr>sync_count := sync_count s + 1\<rparr>
        in if sync_count s > 8 then s\<lparr>demodState := UNLOCKED, locked_flag := False\<rparr>
           else s)"

text \<open>
  \<^verbatim>\<open>std::copy(tmp, tmp + len, buffer.begin())\<close>: the framer hands out its own 368 soft
  bits, so \<open>len\<close> is 0 or 368 and the copy stays inside both arrays.
\<close>

definition copy_into :: "nat \<Rightarrow> 'a list \<Rightarrow> 'a list \<Rightarrow> 'a list" where
  "copy_into len tmp buf = take len tmp @ drop len buf"

definition case_FRAMING ::
  "('n, 'd) units \<Rightarrow> float \<Rightarrow> IoFrame_ptr \<Rightarrow> M17Demodulator \<times> world \<Rightarrow>
     M17Demodulator \<times> world \<times> IoFrame_ptr" where
  "case_FRAMING u sample result sw =
     (let (s, w) = sw;
          s = s\<lparr>locked_flag := True\<rparr>;
          n = llr u sample;
          (len, tmp) = framer u n
      in if len \<noteq> 0 then
           let s = s\<lparr>sync_count := 0\<rparr>;
               s = s\<lparr>demodState := FR_SYNC\<rparr>;
               s = s\<lparr>buffer := copy_into len tmp (buffer s)\<rparr>;
               (valid, result, ber', pool') = decoder u (buffer s) result (ber s) (pool w);
               s = s\<lparr>ber := ber'\<rparr>;
               w = w\<lparr>pool := pool'\<rparr>
           in if \<not> valid then
                (case result of
                   Some f \<Rightarrow>
                     if \<not> passall_flag s then (s, w\<lparr>pool := release f (pool w)\<rparr>, None)
                     else (s, w, result)
                 | None \<Rightarrow> (s, w, result))
              else (s, w, result)
         else (s, w, result))"

definition frame ::
  "('n, 'd) units \<Rightarrow> demod_result_t \<Rightarrow> IoFrame_ptr \<Rightarrow> M17Demodulator \<times> world \<Rightarrow>
     M17Demodulator \<times> world \<times> IoFrame_ptr" where
  "frame u demod_result result sw =
     (let (s, w) = sw;
          (sample, ph, symbol, evm) = demod_result;
          (locked_now, evma) = dcd u evm;
          s = s\<lparr>gain := (if locked_now then Fin (2 / 1000) else Fin (1 / 100))\<rparr>;
          (s, w, result) =
            (case demodState s of
               UNLOCKED \<Rightarrow>
                 (let (s, w) = case_UNLOCKED u locked_now symbol (s, w) in (s, w, result))
             | SYNC \<Rightarrow> (case_SYNC u locked_now symbol s, w, result)
             | FR_SYNC \<Rightarrow> (case_FR_SYNC u locked_now symbol s, w, result)
             | FRAMING \<Rightarrow> case_FRAMING u sample result (s, w));
          w = w\<lparr>count := count w + 1\<rparr>
      in (s, w, result))"

subsection \<open>Conditioning and timing recovery: \<^verbatim>\<open>demod\<close>\<close>

fun map3 :: "('a \<Rightarrow> 'b) \<Rightarrow> 'a \<times> 'a \<times> 'a \<Rightarrow> 'b \<times> 'b \<times> 'b" where
  "map3 f (a, b, c) = (f a, f b, f c)"

fun at1 :: "'a \<times> 'a \<times> 'a \<Rightarrow> 'a" where
  "at1 (a, b, c) = b"

text \<open>\<^verbatim>\<open>samples[i] * 20.0f / 32768.0f\<close>\<close>

definition adc_scale :: "q15_t \<Rightarrow> float" where
  "adc_scale x = fdiv (fmul (float_of_q15 x) (Fin 20)) (Fin 32768)"

definition demod :: "('n, 'd) units \<Rightarrow> M17Demodulator \<Rightarrow> demod_result_t \<times> M17Demodulator" where
  "demod u s =
     (let s = s\<lparr>f_samples := map3 adc_scale (samples s)\<rparr>;
          s = s\<lparr>estimated_deviation := deviation u (at1 (f_samples s))\<rparr>;
          s = s\<lparr>f_samples := map3 (\<lambda>x. fmul x (estimated_deviation s)) (f_samples s)\<rparr>;
          s = s\<lparr>estimated_frequency_offset := frequency u (at1 (f_samples s))\<rparr>;
          s = s\<lparr>f_samples := map3 (\<lambda>x. fsub x (estimated_frequency_offset s)) (f_samples s)\<rparr>;
          phase_estimate = phase u (f_samples s);
          phase_estimate =
            (if flt (at1 (f_samples s)) (Fin 0) then fmul phase_estimate (Fin (- 1))
             else phase_estimate);
          s = s\<lparr>dt := fsub ideal_dt (fmul phase_estimate (gain s))\<rparr>;
          s = s\<lparr>dt := std_min (std_max (Fin (95 / 1000)) (dt s)) (Fin (105 / 1000))\<rparr>;
          s = s\<lparr>t := fadd (t s) (dt s)\<rparr>;
          (symbol, evm) = symbol_evm u (at1 (f_samples s));
          s = s\<lparr>evm_average := symbol_evm_evm u\<rparr>;
          s = s\<lparr>samples := (case samples s of (a, b, c) \<Rightarrow> (c, b, c))\<rparr>
      in ((at1 (f_samples s), phase_estimate, symbol, evm), s))"

subsection \<open>Consecutive symbol periods\<close>

text \<open>
  \<^verbatim>\<open>operator()\<close> (M17Demodulator.cpp, not among the sources) calls \<^verbatim>\<open>frame\<close> once for each
  symbol period.  A run is a list of periods, each with what the collaborators answer in
  it and the result of \<^verbatim>\<open>demod\<close>; every call starts with a null \<^verbatim>\<open>result\<close>.
\<close>

fun frames ::
  "(('n, 'd) units \<times> demod_result_t) list \<Rightarrow> M17Demodulator \<times> world \<Rightarrow> M17Demodulator \<times> world" where
  "frames [] sw = sw"
| "frames (ud # uds) sw =
     (let (s, w, result) = frame (fst ud) (snd ud) None sw in frames uds (s, w))"

text \<open>
  A period in which the carrier detector reports lock and the long correlator
  \<^verbatim>\<open>sync4\<close> does not match.
\<close>

definition locked_no_sync4 :: "('n, 'd) units \<times> demod_result_t \<Rightarrow> bool" where
  "locked_no_sync4 ud =
     (let (u, (sample, ph, symbol, evm)) = ud
      in fst (dcd u evm) \<and> \<not> sync4 u (from_4fsk u symbol))"

text \<open>Collaborators for the concrete runs: a carrier detector and correlators with fixed
  answers, a framer that is still accumulating or has a full frame, a decoder that
  reports a fixed validity and takes its output frame from the pool.\<close>

definition test_units :: "bool \<Rightarrow> bool \<Rightarrow> bool \<Rightarrow> nat \<Rightarrow> bool \<Rightarrow> (unit, int) units" where
  "test_units carrier match1 match4 len valid =
     \<lparr> deviation = (\<lambda>x. Fin 1), frequency = (\<lambda>x. Fin 0), phase = (\<lambda>w. Fin 0),
       symbol_evm = (\<lambda>x. (0, Fin 0)), symbol_evm_evm = Fin 0,
       dcd = (\<lambda>e. (carrier, e)), from_4fsk = (\<lambda>i. i),
       sync1 = (\<lambda>d. match1), sync4 = (\<lambda>d. match4),
       llr = (\<lambda>x. ()), framer = (\<lambda>n. (len, replicate len 0)),
       decoder = (\<lambda>buf r b p. (valid, fst (pool_acquire p), 0, snd (pool_acquire p))) \<rparr>"

definition test_demod :: M17Demodulator where
  "test_demod = M17Demodulator_init (0, 0, 0) (Fin 0, Fin 0, Fin 0) (replicate 368 0)"

definition test_world :: world where
  "test_world = \<lparr> pool = \<lparr> free_list = [1, 2] \<rparr>, calls = [], count = 0 \<rparr>"

definition test_result :: demod_result_t where
  "test_result = (Fin 0, Fin 0, 0, Fin 0)"

text \<open>
  Three kinds of period, and the run that takes the fresh demodulator to the entry of
  \<open>FR_SYNC\<close>: carrier lock with a match of the short correlator (\<open>UNLOCKED\<close> to \<open>SYNC\<close>
  to \<open>FRAMING\<close>), then a period of \<open>FRAMING\<close> in which the framer completes a frame.
\<close>

definition entry_run :: "((unit, int) units \<times> demod_result_t) list" where
  "entry_run = [(test_units True True False 0 True, test_result),
                (test_units True False False 368 True, test_result)]"

definition quiet_period :: "(unit, int) units \<times> demod_result_t" where
  "quiet_period = (test_units True False False 0 True, test_result)"

definition carrier_drop :: "(unit, int) units \<times> demod_result_t" where
  "carrier_drop = (test_units False False False 0 True, test_result)"

text \<open>
  A second entry of \<open>FR_SYNC\<close>: after the first one, three periods without a match of the
  long correlator bring the counter to 3, a match returns to \<open>FRAMING\<close>, and the next
  completed frame enters \<open>FR_SYNC\<close> again.
\<close>

definition reentry_run :: "((unit, int) units \<times> demod_result_t) list" where
  "reentry_run = entry_run @ replicate 3 quiet_period @
     [(test_units True False True 0 True, test_result),
      (test_units True False False 368 True, test_result)]"

section \<open>Helper lemmas\<close>

lemmas frame_defs = frame_def case_UNLOCKED_def case_SYNC_def case_FR_SYNC_def case_FRAMING_def

lemmas test_defs = test_units_def test_demod_def test_world_def test_result_def
  M17Demodulator_init_def entry_run_def quiet_period_def carrier_drop_def

text \<open>The clamp of \<^verbatim>\<open>demod\<close> gives a finite value of the band for every argument, NaN and
  the infinities included.\<close>

lemma clamp_band_case:
  "(case std_min (std_max (Fin (95 / 1000)) x) (Fin (105 / 1000)) of
      Fin r \<Rightarrow> 95 / 1000 \<le> r \<and> r \<le> 105 / 1000 | _ \<Rightarrow> False)"
  by (cases x) (simp_all add: std_min_def std_max_def)

lemma clamp_band:
  "\<exists>r. std_min (std_max (Fin (95 / 1000)) x) (Fin (105 / 1000)) = Fin r \<and>
       95 / 1000 \<le> r \<and> r \<le> 105 / 1000"
  using clamp_band_case [of x]
  by (cases "std_min (std_max (Fin (95 / 1000)) x) (Fin (105 / 1000))") simp_all

lemma demod_phase:
  "fst (snd (fst (demod v s))) =
     (if flt (at1 (f_samples (snd (demod v s)))) (Fin 0)
      then fmul (phase v (f_samples (snd (demod v s)))) (Fin (- 1))
      else phase v (f_samples (snd (demod v s))))"
  by (simp add: demod_def Let_def split: prod.splits)

lemma demod_dt:
  "dt (snd (demod v s)) =
     std_min (std_max (Fin (95 / 1000))
        (fsub ideal_dt (fmul (fst (snd (fst (demod v s)))) (gain s)))) (Fin (105 / 1000))"
  by (simp add: demod_def Let_def split: prod.splits)

lemma frame_gain:
  "gain (fst (frame u (sample, ph, symbol, evm) result (s, w))) =
     (if fst (dcd u evm) then Fin (2 / 1000) else Fin (1 / 100))"
  by (simp add: frame_defs Let_def split: prod.splits DemodState.splits option.splits)

lemma frame_dt: "dt (fst (frame u (sample, ph, symbol, evm) result (s, w))) = dt s"
  by (simp add: frame_defs Let_def split: prod.splits DemodState.splits option.splits)

text \<open>One period of \<open>FR_SYNC\<close> with carrier lock and no match of \<^verbatim>\<open>sync4\<close>.\<close>

lemma frame_quiet_step:
  assumes "demodState s = FR_SYNC" and "locked_no_sync4 (u, sample, ph, symbol, evm)"
  shows "sync_count (fst (frame u (sample, ph, symbol, evm) r (s, w))) = sync_count s + 1 \<and>
    (sync_count s + 1 \<le> 8 \<longrightarrow>
       demodState (fst (frame u (sample, ph, symbol, evm) r (s, w))) = FR_SYNC \<and>
       locked_flag (fst (frame u (sample, ph, symbol, evm) r (s, w))) = locked_flag s) \<and>
    (8 < sync_count s + 1 \<longrightarrow>
       demodState (fst (frame u (sample, ph, symbol, evm) r (s, w))) = UNLOCKED \<and>
       \<not> locked_flag (fst (frame u (sample, ph, symbol, evm) r (s, w))))"
  using assms
  by (cases "dcd u evm") (simp add: frame_defs locked_no_sync4_def Let_def)

text \<open>As long as the counter stays at or below 8 the run stays in \<open>FR_SYNC\<close>, counting.\<close>

lemma frames_quiet:
  "demodState s = FR_SYNC \<Longrightarrow> \<forall>ud\<in>set uds. locked_no_sync4 ud \<Longrightarrow>
   sync_count s + int (length uds) \<le> 8 \<Longrightarrow>
   demodState (fst (frames uds (s, w))) = FR_SYNC \<and>
   sync_count (fst (frames uds (s, w))) = sync_count s + int (length uds) \<and>
   locked_flag (fst (frames uds (s, w))) = locked_flag s"
proof (induction uds arbitrary: s w)
  case Nil
  then show ?case by simp
next
  case (Cons ud uds)
  obtain u sample ph symbol evm where ud: "ud = (u, sample, ph, symbol, evm)"
    by (cases ud) auto
  obtain s1 w1 r1 where step: "frame u (sample, ph, symbol, evm) None (s, w) = (s1, w1, r1)"
    by (cases "frame u (sample, ph, symbol, evm) None (s, w)") auto
  have q: "locked_no_sync4 (u, sample, ph, symbol, evm)"
    using Cons.prems(2) ud by simp
  have le: "sync_count s + 1 \<le> 8"
    using Cons.prems(3) by simp
  from frame_quiet_step [OF Cons.prems(1) q, of None w] le step
  have s1: "sync_count s1 = sync_count s + 1" "demodState s1 = FR_SYNC"
    "locked_flag s1 = locked_flag s"
    by simp_all
  have "demodState (fst (frames uds (s1, w1))) = FR_SYNC \<and>
    sync_count (fst (frames uds (s1, w1))) = sync_count s1 + int (length uds) \<and>
    locked_flag (fst (frames uds (s1, w1))) = locked_flag s1"
    using Cons.prems s1 by (intro Cons.IH) simp_all
  then show ?case
    using step s1 by (simp add: ud)
qed

lemma frames_snoc:
  "frames (uds @ [ud]) sw =
     (let (s, w, r) = frame (fst ud) (snd ud) None (frames uds sw) in (s, w))"
  by (induction uds arbitrary: sw) (simp_all add: Let_def split: prod.splits)

text \<open>
  The only way into \<open>FR_SYNC\<close> is the period of \<open>FRAMING\<close> in which the framer completes a
  frame; it resets the counter to 0 and leaves the flag true.
\<close>

lemma frame_enters_FR_SYNC:
  assumes "demodState s \<noteq> FR_SYNC"
    and "demodState (fst (frame u (sample, ph, symbol, evm) result (s, w))) = FR_SYNC"
  shows "sync_count (fst (frame u (sample, ph, symbol, evm) result (s, w))) = 0 \<and>
         locked_flag (fst (frame u (sample, ph, symbol, evm) result (s, w))) \<and>
         demodState s = FRAMING \<and> fst (framer u (llr u sample)) \<noteq> 0"
  using assms
  by (cases "dcd u evm"; cases "demodState s")
     (auto simp add: frame_defs Let_def split: prod.splits option.splits if_splits)

text \<open>From \<open>FR_SYNC\<close> with the counter at 0: eight periods stay, the ninth leaves.\<close>

lemma fr_sync_quiet_run:
  assumes "demodState s = FR_SYNC" and "sync_count s = 0"
    and "\<forall>ud\<in>set uds. locked_no_sync4 ud"
  shows "(length uds \<le> 8 \<longrightarrow>
            demodState (fst (frames uds (s, w))) = FR_SYNC \<and>
            locked_flag (fst (frames uds (s, w))) = locked_flag s) \<and>
         (length uds = 9 \<longrightarrow>
            demodState (fst (frames uds (s, w))) = UNLOCKED \<and>
            \<not> locked_flag (fst (frames uds (s, w))))"
proof (intro conjI impI)
  assume len: "length uds \<le> 8"
  from frames_quiet [OF assms(1) assms(3), of w] len assms(2)
  show "demodState (fst (frames uds (s, w))) = FR_SYNC"
    and "locked_flag (fst (frames uds (s, w))) = locked_flag s"
    by simp_all
next
  assume len: "length uds = 9"
  then obtain ys y where uds: "uds = ys @ [y]" and ly: "length ys = 8"
    by (cases uds rule: rev_cases) auto
  obtain u sample ph symbol evm where y: "y = (u, sample, ph, symbol, evm)"
    by (cases y) auto
  obtain s8 w8 where r8: "frames ys (s, w) = (s8, w8)"
    by (cases "frames ys (s, w)") auto
  have qs: "\<forall>ud\<in>set ys. locked_no_sync4 ud"
    and qy: "locked_no_sync4 (u, sample, ph, symbol, evm)"
    using assms(3) uds y by simp_all
  from frames_quiet [OF assms(1) qs, of w] ly assms(2) r8
  have s8: "demodState s8 = FR_SYNC" "sync_count s8 = 8"
    by simp_all
  from frame_quiet_step [OF s8(1) qy, of None w8] s8(2)
  have "demodState (fst (frame u (sample, ph, symbol, evm) None (s8, w8))) = UNLOCKED"
    "\<not> locked_flag (fst (frame u (sample, ph, symbol, evm) None (s8, w8)))"
    by simp_all
  then show "demodState (fst (frames uds (s, w))) = UNLOCKED"
    and "\<not> locked_flag (fst (frames uds (s, w)))"
    by (auto simp add: uds y frames_snoc r8 split: prod.splits)
qed

section \<open>The claims\<close>

text \<open>
  C1.  Every call of \<^verbatim>\<open>acquire()\<close> either returns a non-null frame handle to its caller, or,
  exactly when the pool has no free frame, invokes the error handler; it never returns the
  null pointer.
\<close>

theorem acquire_returns_frame_or_is_fatal:
  "((\<exists>f p'. acquire p = Inr (Some f, p')) \<or>
    (acquire p = Inl ErrorHandlerInvoked \<and> fst (pool_acquire p) = None)) \<and>
   (\<forall>p'. acquire p \<noteq> Inr (None, p')) \<and>
   (acquire p = Inl ErrorHandlerInvoked \<longleftrightarrow> free_list p = [])"
  by (cases "free_list p") (simp_all add: acquire_def pool_acquire_def CxxErrorHandler_def)

text \<open>
  C2.  After every execution of \<^verbatim>\<open>demod()\<close>, from any state and with any answers of the
  collaborators (NaN and infinite ones included), \<open>dt\<close> is a finite value between 0.095
  and 0.105.  Nothing else writes \<open>dt\<close>: \<^verbatim>\<open>frame\<close>, \<^verbatim>\<open>stop\<close> and \<^verbatim>\<open>passall\<close> leave it as it
  is, and a fresh demodulator has the ideal spacing 0.1.
\<close>

theorem demod_dt_in_band:
  "(\<exists>r. dt (snd (demod u s)) = Fin r \<and> 95 / 1000 \<le> r \<and> r \<le> 105 / 1000) \<and>
   dt (fst (frame v (sample, ph, symbol, evm) result (s, w))) = dt s \<and>
   dt (fst (stop (s, w))) = dt s \<and>
   dt (passall enabled s) = dt s \<and>
   dt (M17Demodulator_init smp fsmp buf) = Fin (1 / 10)"
proof -
  have "\<exists>r. dt (snd (demod u s)) = Fin r \<and> 95 / 1000 \<le> r \<and> r \<le> 105 / 1000"
    by (simp only: demod_dt clamp_band)
  moreover have "dt (fst (stop (s, w))) = dt s"
    by (simp add: stop_def Let_def)
  moreover have "dt (passall enabled s) = dt s"
    by (simp add: passall_def)
  moreover have "dt (M17Demodulator_init smp fsmp buf) = Fin (1 / 10)"
    by (simp add: M17Demodulator_init_def)
  ultimately show ?thesis
    using frame_dt [of v sample ph symbol evm result s w] by blast
qed

text \<open>
  C3, the stated equivalence fails in both directions.  On the fresh demodulator, a period
  with carrier lock and a match of the short correlator ends in \<open>FRAMING\<close> with the carrier
  locked and \<^verbatim>\<open>locked()\<close> false; and after the period of \<open>FRAMING\<close> that completes a
  frame the state is \<open>FR_SYNC\<close> and \<^verbatim>\<open>locked()\<close> is true.
\<close>

theorem locked_iff_framing_counterexample:
  "demodState (fst (frame (test_units True True False 0 True) test_result None
      (test_demod, test_world))) = FRAMING \<and>
   fst (dcd (test_units True True False 0 True) (Fin 0)) \<and>
   \<not> locked (fst (frame (test_units True True False 0 True) test_result None
      (test_demod, test_world))) \<and>
   demodState (fst (frames entry_run (test_demod, test_world))) = FR_SYNC \<and>
   locked (fst (frames entry_run (test_demod, test_world)))"
  by (simp add: test_defs frame_defs Let_def locked_def pool_acquire_def)

text \<open>
  C3, as the code has it.  \<^verbatim>\<open>locked()\<close> returns the stored flag.  After a period it is
  true when the period began in \<open>FRAMING\<close>, whatever the carrier detector reports and also
  when the period completes a frame and leaves for \<open>FR_SYNC\<close>; it is false when the period
  began in \<open>UNLOCKED\<close> without carrier lock, or was the sync-loss timeout of \<open>FR_SYNC\<close>;
  every other period leaves it as it was.
\<close>

theorem locked_after_frame:
  "locked (fst (frame u (sample, ph, symbol, evm) result (s, w))) =
     (if demodState s = FRAMING then True
      else if demodState s = UNLOCKED \<and> \<not> fst (dcd u evm) then False
      else if demodState s = FR_SYNC \<and> fst (dcd u evm) \<and>
              \<not> sync4 u (from_4fsk u symbol) \<and> 8 < sync_count s + 1 then False
      else locked s)"
  by (simp add: frame_defs Let_def locked_def
      split: prod.splits DemodState.splits option.splits)

theorem locked_after_frame_witness:
  "locked (fst (frame (test_units False False False 0 True) (Fin 0, Fin 0, 0, Fin 0) None
     (test_demod\<lparr>demodState := FRAMING\<rparr>, test_world)))"
  using locked_after_frame [of "test_units False False False 0 True" "Fin 0" "Fin 0" 0 "Fin 0"
      None "test_demod\<lparr>demodState := FRAMING\<rparr>" test_world]
  by simp

text \<open>
  C4, the stated property fails for a carrier drop in \<open>FR_SYNC\<close>.  The fresh demodulator
  reaches \<open>FR_SYNC\<close> with the flag true; a period without carrier lock then moves it to
  \<open>UNLOCKED\<close>, and \<^verbatim>\<open>locked()\<close> is still true after that period.
\<close>

theorem carrier_drop_keeps_flag_counterexample:
  "demodState (fst (frames entry_run (test_demod, test_world))) = FR_SYNC \<and>
   \<not> fst (dcd (fst carrier_drop) (Fin 0)) \<and>
   demodState (fst (frames (entry_run @ [carrier_drop]) (test_demod, test_world))) = UNLOCKED \<and>
   locked (fst (frames (entry_run @ [carrier_drop]) (test_demod, test_world)))"
  by (simp add: test_defs frame_defs Let_def locked_def pool_acquire_def)

text \<open>
  C4, as the code has it.  The sync-loss timeout of \<open>FR_SYNC\<close> moves to \<open>UNLOCKED\<close> and
  drives the flag false in the same period.  A carrier drop in \<open>SYNC\<close> or \<open>FR_SYNC\<close> moves
  to \<open>UNLOCKED\<close> and leaves the flag as it was; a period that begins in \<open>UNLOCKED\<close> without
  carrier lock drives it false.  These three are the only ways back to \<open>UNLOCKED\<close>.
\<close>

theorem unlocked_transitions_flag:
  "(demodState s = FR_SYNC \<and> fst (dcd u evm) \<and> \<not> sync4 u (from_4fsk u symbol) \<and>
    8 < sync_count s + 1 \<longrightarrow>
      demodState (fst (frame u (sample, ph, symbol, evm) result (s, w))) = UNLOCKED \<and>
      \<not> locked (fst (frame u (sample, ph, symbol, evm) result (s, w)))) \<and>
   ((demodState s = SYNC \<or> demodState s = FR_SYNC) \<and> \<not> fst (dcd u evm) \<longrightarrow>
      demodState (fst (frame u (sample, ph, symbol, evm) result (s, w))) = UNLOCKED \<and>
      locked (fst (frame u (sample, ph, symbol, evm) result (s, w))) = locked s) \<and>
   (demodState s = UNLOCKED \<and> \<not> fst (dcd u evm) \<longrightarrow>
      demodState (fst (frame u (sample, ph, symbol, evm) result (s, w))) = UNLOCKED \<and>
      \<not> locked (fst (frame u (sample, ph, symbol, evm) result (s, w)))) \<and>
   (demodState s \<noteq> UNLOCKED \<and>
    demodState (fst (frame u (sample, ph, symbol, evm) result (s, w))) = UNLOCKED \<longrightarrow>
      (demodState s = SYNC \<and> \<not> fst (dcd u evm)) \<or>
      (demodState s = FR_SYNC \<and> \<not> fst (dcd u evm)) \<or>
      (demodState s = FR_SYNC \<and> fst (dcd u evm) \<and> \<not> sync4 u (from_4fsk u symbol) \<and>
         8 < sync_count s + 1))"
  by (cases "dcd u evm"; cases "demodState s")
     (auto simp add: frame_defs Let_def locked_def split: prod.splits option.splits if_splits)

theorem unlocked_transitions_flag_witness:
  "demodState (fst (frame (test_units False False False 0 True) (Fin 0, Fin 0, 0, Fin 0) None
      (test_demod\<lparr>demodState := FR_SYNC, locked_flag := True\<rparr>, test_world))) = UNLOCKED \<and>
   locked (fst (frame (test_units False False False 0 True) (Fin 0, Fin 0, 0, Fin 0) None
      (test_demod\<lparr>demodState := FR_SYNC, locked_flag := True\<rparr>, test_world))) \<and>
   demodState (fst (frame (test_units True False False 0 True) (Fin 0, Fin 0, 0, Fin 0) None
      (test_demod\<lparr>demodState := FR_SYNC, locked_flag := True, sync_count := 8\<rparr>, test_world)))
     = UNLOCKED \<and>
   \<not> locked (fst (frame (test_units True False False 0 True) (Fin 0, Fin 0, 0, Fin 0) None
      (test_demod\<lparr>demodState := FR_SYNC, locked_flag := True, sync_count := 8\<rparr>, test_world)))"
  using unlocked_transitions_flag [of "test_demod\<lparr>demodState := FR_SYNC, locked_flag := True\<rparr>"
      "test_units False False False 0 True" "Fin 0" 0 "Fin 0" "Fin 0" None test_world]
    unlocked_transitions_flag [of
      "test_demod\<lparr>demodState := FR_SYNC, locked_flag := True, sync_count := 8\<rparr>"
      "test_units True False False 0 True" "Fin 0" 0 "Fin 0" "Fin 0" None test_world]
  by (simp add: test_units_def locked_def)

text \<open>
  C5, the stated property fails: 8 periods are one too few.  The run enters \<open>FR_SYNC\<close> a
  second time, with the counter at 3 before the frame that is completed; the entry resets
  it to 0, and after 8 consecutive periods with carrier lock and no match of the long
  correlator the state is still \<open>FR_SYNC\<close> and \<^verbatim>\<open>locked()\<close> is still true.
\<close>

theorem fr_sync_eight_periods_counterexample:
  "sync_count (fst (frames (entry_run @ replicate 3 quiet_period) (test_demod, test_world))) = 3 \<and>
   demodState (fst (frames (entry_run @ replicate 3 quiet_period @
      [(test_units True False True 0 True, test_result)]) (test_demod, test_world))) = FRAMING \<and>
   demodState (fst (frames reentry_run (test_demod, test_world))) = FR_SYNC \<and>
   sync_count (fst (frames reentry_run (test_demod, test_world))) = 0 \<and>
   locked_no_sync4 quiet_period \<and>
   demodState (fst (frames (replicate 8 quiet_period)
      (frames reentry_run (test_demod, test_world)))) = FR_SYNC \<and>
   locked (fst (frames (replicate 8 quiet_period)
      (frames reentry_run (test_demod, test_world))))"
  by (simp add: test_defs reentry_run_def frame_defs Let_def locked_def pool_acquire_def
      locked_no_sync4_def numeral_eq_Suc)

text \<open>
  C5, as the code has it.  Every entry of \<open>FR_SYNC\<close> (a period that begins in another
  state and ends in \<open>FR_SYNC\<close>) resets the counter to 0 and has the flag true.  The test is
  \<^verbatim>\<open>++sync_count > 8\<close>: during the first 8 consecutive periods after the entry with carrier
  lock and no match of the long correlator the state stays \<open>FR_SYNC\<close> and the flag stays
  true; the 9th such period returns to \<open>UNLOCKED\<close> and clears the flag.
\<close>

theorem fr_sync_timeout_after_nine:
  assumes "demodState s0 \<noteq> FR_SYNC"
    and "frame u0 (sample, ph, symbol, evm) r0 (s0, w0) = (s, w, r)"
    and "demodState s = FR_SYNC"
    and "\<forall>ud\<in>set uds. locked_no_sync4 ud"
  shows "sync_count s = 0 \<and> locked s \<and>
         (length uds \<le> 8 \<longrightarrow>
            demodState (fst (frames uds (s, w))) = FR_SYNC \<and>
            locked (fst (frames uds (s, w)))) \<and>
         (length uds = 9 \<longrightarrow>
            demodState (fst (frames uds (s, w))) = UNLOCKED \<and>
            \<not> locked (fst (frames uds (s, w))))"
proof -
  from frame_enters_FR_SYNC [OF assms(1), of u0 sample ph symbol evm r0 w0] assms(2,3)
  have entry: "sync_count s = 0" "locked_flag s"
    by simp_all
  from fr_sync_quiet_run [OF assms(3) entry(1) assms(4), of w] entry
  show ?thesis
    by (simp add: locked_def)
qed

theorem fr_sync_timeout_after_nine_witness:
  "sync_count (fst (frame (test_units True False False 368 True) (Fin 0, Fin 0, 0, Fin 0) None
      (test_demod\<lparr>demodState := FRAMING, sync_count := 5\<rparr>, test_world))) = 0 \<and>
   demodState (fst (frames (replicate 8 quiet_period)
      (fst (frame (test_units True False False 368 True) (Fin 0, Fin 0, 0, Fin 0) None
         (test_demod\<lparr>demodState := FRAMING, sync_count := 5\<rparr>, test_world)),
       fst (snd (frame (test_units True False False 368 True) (Fin 0, Fin 0, 0, Fin 0) None
         (test_demod\<lparr>demodState := FRAMING, sync_count := 5\<rparr>, test_world)))))) = FR_SYNC \<and>
   demodState (fst (frames (replicate 9 quiet_period)
      (fst (frame (test_units True False False 368 True) (Fin 0, Fin 0, 0, Fin 0) None
         (test_demod\<lparr>demodState := FRAMING, sync_count := 5\<rparr>, test_world)),
       fst (snd (frame (test_units True False False 368 True) (Fin 0, Fin 0, 0, Fin 0) None
         (test_demod\<lparr>demodState := FRAMING, sync_count := 5\<rparr>, test_world)))))) = UNLOCKED \<and>
   \<not> locked (fst (frames (replicate 9 quiet_period)
      (fst (frame (test_units True False False 368 True) (Fin 0, Fin 0, 0, Fin 0) None
         (test_demod\<lparr>demodState := FRAMING, sync_count := 5\<rparr>, test_world)),
       fst (snd (frame (test_units True False False 368 True) (Fin 0, Fin 0, 0, Fin 0) None
         (test_demod\<lparr>demodState := FRAMING, sync_count := 5\<rparr>, test_world))))))"
proof -
  define F where "F = frame (test_units True False False 368 True) (Fin 0, Fin 0, 0, Fin 0) None
      (test_demod\<lparr>demodState := FRAMING, sync_count := 5\<rparr>, test_world)"
  have a: "demodState (test_demod\<lparr>demodState := FRAMING, sync_count := 5\<rparr>) \<noteq> FR_SYNC"
    by simp
  have b: "frame (test_units True False False 368 True) (Fin 0, Fin 0, 0, Fin 0) None
      (test_demod\<lparr>demodState := FRAMING, sync_count := 5\<rparr>, test_world) =
      (fst F, fst (snd F), snd (snd F))"
    by (simp add: F_def)
  have c: "demodState (fst F) = FR_SYNC"
    by (simp add: F_def test_units_def frame_defs Let_def)
  have q8: "\<forall>ud\<in>set (replicate 8 quiet_period). locked_no_sync4 ud"
    and q9: "\<forall>ud\<in>set (replicate 9 quiet_period). locked_no_sync4 ud"
    by (simp_all add: test_defs locked_no_sync4_def)
  show ?thesis
    using fr_sync_timeout_after_nine [OF a b c q8] fr_sync_timeout_after_nine [OF a b c q9]
    by (simp add: F_def)
qed

text \<open>
  C6.  When the framer completes a frame in \<open>FRAMING\<close>: with the decoder reporting invalid
  and pass-all off, the caller gets the null pointer and the frame the decoder produced is
  released, so it is on the pool's free list again; with the decoder reporting valid, or
  with pass-all on, the caller gets the pointer the decoder produced and the pool is as the
  decoder left it.
\<close>

theorem framing_emits_or_releases:
  assumes "demodState s = FRAMING"
    and "framer u (llr u sample) = (len, tmp)" and "len \<noteq> 0"
    and "decoder u (copy_into len tmp (buffer s)) result (ber s) (pool w) =
           (valid, produced, b, p)"
  shows "(\<not> valid \<and> \<not> passall_flag s \<longrightarrow>
            snd (snd (frame u (sample, ph, symbol, evm) result (s, w))) = None \<and>
            pool (fst (snd (frame u (sample, ph, symbol, evm) result (s, w)))) =
              (case produced of Some f \<Rightarrow> release f p | None \<Rightarrow> p) \<and>
            (\<forall>f. produced = Some f \<longrightarrow>
               f \<in> set (free_list
                 (pool (fst (snd (frame u (sample, ph, symbol, evm) result (s, w)))))))) \<and>
         (valid \<or> passall_flag s \<longrightarrow>
            snd (snd (frame u (sample, ph, symbol, evm) result (s, w))) = produced \<and>
            pool (fst (snd (frame u (sample, ph, symbol, evm) result (s, w)))) = p)"
  using assms
  by (cases "dcd u evm")
     (auto simp add: frame_defs Let_def release_def pool_release_def split: option.splits)

theorem framing_emits_or_releases_witness:
  "snd (snd (frame (test_units True False False 368 False) (Fin 0, Fin 0, 0, Fin 0) None
      (test_demod\<lparr>demodState := FRAMING\<rparr>, test_world))) = None \<and>
   free_list (pool (fst (snd (frame (test_units True False False 368 False)
      (Fin 0, Fin 0, 0, Fin 0) None (test_demod\<lparr>demodState := FRAMING\<rparr>, test_world))))) = [2, 1] \<and>
   snd (snd (frame (test_units True False False 368 True) (Fin 0, Fin 0, 0, Fin 0) None
      (test_demod\<lparr>demodState := FRAMING\<rparr>, test_world))) = Some 1 \<and>
   free_list (pool (fst (snd (frame (test_units True False False 368 True)
      (Fin 0, Fin 0, 0, Fin 0) None (test_demod\<lparr>demodState := FRAMING\<rparr>, test_world))))) = [2] \<and>
   snd (snd (frame (test_units True False False 368 False) (Fin 0, Fin 0, 0, Fin 0) None
      (test_demod\<lparr>demodState := FRAMING, passall_flag := True\<rparr>, test_world))) = Some 1"
proof -
  have st: "demodState (test_demod\<lparr>demodState := FRAMING\<rparr>) = FRAMING"
    "demodState (test_demod\<lparr>demodState := FRAMING, passall_flag := True\<rparr>) = FRAMING"
    by simp_all
  have fr: "framer (test_units True False False 368 v) (llr (test_units True False False 368 v) (Fin 0))
      = (368, replicate 368 0)" for v
    by (simp add: test_units_def)
  have ne: "(368::nat) \<noteq> 0"
    by simp
  have dec: "decoder (test_units True False False 368 v) (copy_into 368 (replicate 368 0) (buffer s0))
      None (ber s0) (pool test_world) = (v, Some 1, 0, \<lparr>free_list = [2]\<rparr>)" for v s0
    by (simp add: test_units_def test_world_def pool_acquire_def)
  show ?thesis
    using framing_emits_or_releases [where ph = "Fin 0" and symbol = 0 and evm = "Fin 0",
        OF st(1) fr ne dec [of False]]
      framing_emits_or_releases [where ph = "Fin 0" and symbol = 0 and evm = "Fin 0",
        OF st(1) fr ne dec [of True]]
      framing_emits_or_releases [where ph = "Fin 0" and symbol = 0 and evm = "Fin 0",
        OF st(2) fr ne dec [of False]]
    by (simp add: test_demod_def M17Demodulator_init_def release_def pool_release_def)
qed

text \<open>
  C7.  After \<^verbatim>\<open>demod()\<close> each of the three window samples is the ADC value times 20 over
  32768, times the factor the deviation corrector computes from the scaled centre sample,
  minus the offset the frequency corrector computes from the deviation-corrected centre
  sample: the deviation correction comes before the frequency correction.
\<close>

theorem demod_conditioning_order:
  "(case samples s of (s0, s1, s2) \<Rightarrow>
      let scaled = (\<lambda>x. Fin (real_of_int (sint x) * 20 / 32768));
          factor = deviation u (scaled s1);
          offset = frequency u (fmul (scaled s1) factor)
      in f_samples (snd (demod u s)) =
           (fsub (fmul (scaled s0) factor) offset,
            fsub (fmul (scaled s1) factor) offset,
            fsub (fmul (scaled s2) factor) offset) \<and>
         estimated_deviation (snd (demod u s)) = factor \<and>
         estimated_frequency_offset (snd (demod u s)) = offset)"
  by (cases "samples s")
     (simp add: demod_def adc_scale_def float_of_q15_def Let_def split: prod.splits)

theorem demod_conditioning_order_witness:
  "f_samples (snd (demod
      ((test_units True False False 0 True)
         \<lparr>deviation := (\<lambda>x. x), frequency := (\<lambda>y. fmul y (Fin (1 / 4)))\<rparr>)
      (test_demod\<lparr>samples := (0, 16384, - 16384)\<rparr>))) = (Fin (- 25), Fin 75, Fin (- 125))"
  using demod_conditioning_order [where s = "test_demod\<lparr>samples := (0, 16384, - 16384)\<rparr>"
      and u = "(test_units True False False 0 True)
         \<lparr>deviation := (\<lambda>x. x), frequency := (\<lambda>y. fmul y (Fin (1 / 4)))\<rparr>"]
  by (simp add: test_units_def fsub_def)

text \<open>
  C8.  \<^verbatim>\<open>frame\<close> selects the loop gain from what the carrier detector reports in that
  period, 0.002 when locked and the larger 0.01 when not.  \<^verbatim>\<open>demod\<close> flips the sign of
  the phase estimate when the corrected centre sample is negative, and computes the next
  spacing as the clamp of the ideal spacing minus that estimate times the gain; so the
  \<^verbatim>\<open>demod\<close> that follows a \<^verbatim>\<open>frame\<close> uses the gain selected there.
\<close>

theorem loop_gain_and_phase_sign:
  "gain (fst (frame u (sample, ph, symbol, evm) result (s, w))) =
     (if fst (dcd u evm) then Fin (2 / 1000) else Fin (1 / 100)) \<and>
   flt (Fin (2 / 1000)) (Fin (1 / 100)) \<and>
   fst (snd (fst (demod v s))) =
     (if flt (at1 (f_samples (snd (demod v s)))) (Fin 0)
      then fmul (phase v (f_samples (snd (demod v s)))) (Fin (- 1))
      else phase v (f_samples (snd (demod v s)))) \<and>
   dt (snd (demod v s)) =
     std_min (std_max (Fin (95 / 1000))
        (fsub ideal_dt (fmul (fst (snd (fst (demod v s)))) (gain s)))) (Fin (105 / 1000)) \<and>
   dt (snd (demod v (fst (frame u (sample, ph, symbol, evm) result (s, w))))) =
     std_min (std_max (Fin (95 / 1000))
        (fsub ideal_dt
           (fmul (fst (snd (fst (demod v (fst (frame u (sample, ph, symbol, evm) result (s, w)))))))
                 (if fst (dcd u evm) then Fin (2 / 1000) else Fin (1 / 100)))))
       (Fin (105 / 1000))"
proof -
  have "flt (Fin (2 / 1000)) (Fin (1 / 100))"
    by simp
  moreover note frame_gain [of u sample ph symbol evm result s w] demod_phase [of v s]
    demod_dt [of v s]
  moreover have "dt (snd (demod v (fst (frame u (sample, ph, symbol, evm) result (s, w))))) =
     std_min (std_max (Fin (95 / 1000))
        (fsub ideal_dt
           (fmul (fst (snd (fst (demod v (fst (frame u (sample, ph, symbol, evm) result (s, w)))))))
                 (if fst (dcd u evm) then Fin (2 / 1000) else Fin (1 / 100)))))
       (Fin (105 / 1000))"
    by (simp only: demod_dt [of v "fst (frame u (sample, ph, symbol, evm) result (s, w))"]
        frame_gain)
  ultimately show ?thesis
    by blast
qed

text \<open>
  C9.  After \<^verbatim>\<open>stop()\<close>, \<^verbatim>\<open>locked()\<close> returns false, whatever the state was before.
\<close>

theorem stop_clears_locked:
  "\<not> locked (fst (stop (s, w)))"
  by (simp add: stop_def locked_def Let_def)

text \<open>
  C10.  \<^verbatim>\<open>passall(enabled)\<close> writes the pass-all flag and nothing else: the two states
  agree once the flag is set to a common value, and the state of the state machine, the
  locked flag, \<open>dt\<close>, the sync-loss counter and the running estimators are as before.
\<close>

theorem passall_changes_only_flag:
  "passall_flag (passall enabled s) = enabled \<and>
   (\<forall>x. (passall enabled s)\<lparr>passall_flag := x\<rparr> = s\<lparr>passall_flag := x\<rparr>) \<and>
   demodState (passall enabled s) = demodState s \<and>
   locked (passall enabled s) = locked s \<and>
   dt (passall enabled s) = dt s \<and>
   sync_count (passall enabled s) = sync_count s \<and>
   estimated_deviation (passall enabled s) = estimated_deviation s \<and>
   estimated_frequency_offset (passall enabled s) = estimated_frequency_offset s \<and>
   evm_average (passall enabled s) = evm_average s \<and>
   gain (passall enabled s) = gain s \<and>
   t (passall enabled s) = t s"
  by (simp add: passall_def locked_def)

end
